theory Spec2Isabelle
  imports Main
begin

section \<open>The data drift report Lambda (DataDriftReportLambdaversion6/app.py)\<close>

text \<open>
  The handler sequences five calls into services that live outside the repository: S3
  \<open>get_object\<close> and \<open>put_object\<close>, pandas \<open>read_csv\<close>, the Evidently
  \<open>Report\<close> with its \<open>DataDriftPreset\<close>, and SES \<open>send_raw_email\<close>. Their
  behaviour is a parameter of the model (the record \<open>services\<close>); the state they share with
  the handler is the record \<open>world\<close>: the contents of S3, the ordered trace of every
  external call and printed line, and the source of UUIDs. A Python exception is a value
  \<open>Inl e\<close>; the source has no \<open>try\<close>, so every exception leaves the handler.
  A call is recorded in the trace when it is made, whether it succeeds or not; an object
  is in \<open>objects\<close> only once \<open>put_object\<close> has succeeded. Running the report and
  rendering it with \<open>get_html\<close> are two library calls, and either may raise.
\<close>

subsection \<open>Values\<close>

text \<open>A Python \<open>str\<close> that may hold any code point, and a \<open>bytes\<close> value.\<close>

type_synonym unicode = "nat list"
type_synonym bytes = "nat list"

datatype dtype = Numeric | Categorical | Datetime

record column =
  col_name :: string
  col_dtype :: dtype
  col_cells :: "string option list"

type_synonym dataframe = "column list"

datatype exn =
    NoSuchKey string string
  | ParserError
  | AnalyzerError string
  | StoreUnavailable
  | DeliveryError string
  | UnicodeEncodeError nat
  | KeyError string

text \<open>A metric as the source constructs it: the preset and the keyword arguments written in
  the call, each a name and the literal given for it. An argument that is not written
  keeps the library's default.\<close>

datatype metric = DataDriftPreset "(string \<times> string) list"

text \<open>
  The MIME tree built by \<open>send_email_with_attachment\<close>. A \<open>MIMEBase\<close> part keeps its
  payload as the bytes handed to \<open>set_payload\<close>: \<open>encode_base64\<close> changes the transfer
  encoding only.
\<close>

datatype mime_part =
    MIMEText string string
  | MIMEBase string string bytes "(string \<times> string) list"

record mime_message =
  msg_subject :: string
  msg_from :: string
  msg_to :: string
  msg_parts :: "mime_part list"

datatype effect =
    Print string
  | GetObject string string
  | PutObject string string unicode string
  | SendRawEmail string "string list" mime_message

record world =
  objects :: "string \<times> string \<rightharpoonup> unicode"
  trace :: "effect list"
  uuid_hexes :: "nat \<Rightarrow> string"
  uuid_drawn :: nat

record 'rep services =
  read_csv :: "unicode \<Rightarrow> dataframe option"
  evidently_run :: "metric list \<Rightarrow> dataframe \<Rightarrow> dataframe \<Rightarrow> exn + 'rep"
  get_html :: "'rep \<Rightarrow> exn + unicode"
  put_object_error :: "string \<Rightarrow> string \<Rightarrow> unicode \<Rightarrow> exn option"
  send_raw_email :: "mime_message \<Rightarrow> exn + string"

text \<open>One entry of \<open>event['Records']\<close>: \<open>record['s3']['bucket']['name']\<close> and
  \<open>record['s3']['object']['key']\<close>. The event is an S3 notification, so both fields
  are present in every record; an event without them (a \<open>KeyError\<close> in the source) is
  outside this type.\<close>

record s3_record =
  bucket_name :: string
  object_key :: string

record response =
  statusCode :: nat
  message :: string
  report_key :: "string option"
  email_response :: "string option"

subsection \<open>Module constants\<close>

definition CUR_DATA_BUCKET :: string where
  "CUR_DATA_BUCKET = ''dq6-cur-data-s3''"

definition REF_DATA_BUCKET :: string where
  "REF_DATA_BUCKET = ''dq6-ref-data-s3''"

definition REPORTS_BUCKET :: string where
  "REPORTS_BUCKET = ''dq6-reports-s3''"

subsection \<open>Primitive effects\<close>

definition emit :: "effect \<Rightarrow> world \<Rightarrow> world" where
  "emit x w = w\<lparr>trace := trace w @ [x]\<rparr>"

definition uuid4_hex :: "world \<Rightarrow> string \<times> world" where
  "uuid4_hex w = (uuid_hexes w (uuid_drawn w), w\<lparr>uuid_drawn := Suc (uuid_drawn w)\<rparr>)"

text \<open>\<open>str.encode('utf-8')\<close>: a lone surrogate, which a Python \<open>str\<close> can hold, raises.\<close>

definition encode_cp :: "nat \<Rightarrow> bytes option" where
  "encode_cp c =
     (if c < 0x80 then Some [c]
      else if c < 0x800 then Some [0xC0 + c div 64, 0x80 + c mod 64]
      else if 0xD800 \<le> c \<and> c < 0xE000 then None
      else if c < 0x10000 then
        Some [0xE0 + c div 4096, 0x80 + (c div 64) mod 64, 0x80 + c mod 64]
      else if c < 0x110000 then
        Some [0xF0 + c div 262144, 0x80 + (c div 4096) mod 64,
              0x80 + (c div 64) mod 64, 0x80 + c mod 64]
      else None)"

fun encode_utf8 :: "unicode \<Rightarrow> exn + bytes" where
  "encode_utf8 [] = Inr []"
| "encode_utf8 (c # cs) =
     (case encode_cp c of
        None \<Rightarrow> Inl (UnicodeEncodeError c)
      | Some bs \<Rightarrow>
          (case encode_utf8 cs of
             Inl e \<Rightarrow> Inl e
           | Inr rest \<Rightarrow> Inr (bs @ rest)))"

subsection \<open>The functions of app.py\<close>

definition load_data_from_s3 ::
  "'rep services \<Rightarrow> world \<Rightarrow> string \<Rightarrow> string \<Rightarrow> (exn + dataframe) \<times> world" where
  "load_data_from_s3 E w bucket key =
     (let w' = emit (GetObject bucket key) w in
      case objects w (bucket, key) of
        None \<Rightarrow> (Inl (NoSuchKey bucket key), w')
      | Some body \<Rightarrow>
          (case read_csv E body of
             None \<Rightarrow> (Inl ParserError, w')
           | Some data \<Rightarrow> (Inr data, w')))"

definition generate_drift_report ::
  "'rep services \<Rightarrow> dataframe \<Rightarrow> dataframe \<Rightarrow> exn + 'rep" where
  "generate_drift_report E reference_data current_data =
     evidently_run E [DataDriftPreset []] reference_data current_data"

text \<open>
  \<open>s3_client.put_object\<close> with a \<open>str\<close> body: the client encodes the body as UTF-8
  before it sends anything, so a body that cannot be encoded raises with nothing stored;
  after that the store may refuse the object.
\<close>

definition put_object ::
  "'rep services \<Rightarrow> world \<Rightarrow> string \<Rightarrow> string \<Rightarrow> unicode \<Rightarrow> string
     \<Rightarrow> (exn + unit) \<times> world" where
  "put_object E w bucket key body content_type =
     (let w' = emit (PutObject bucket key body content_type) w in
      case encode_utf8 body of
        Inl e \<Rightarrow> (Inl e, w')
      | Inr data \<Rightarrow>
          (case put_object_error E bucket key body of
             Some e \<Rightarrow> (Inl e, w')
           | None \<Rightarrow> (Inr (), w'\<lparr>objects := (objects w')((bucket, key) \<mapsto> body)\<rparr>)))"

text \<open>\<open>report.get_html()\<close> runs first and may raise; then no \<open>put_object\<close> call is
  made.\<close>

definition save_report_to_s3 ::
  "'rep services \<Rightarrow> world \<Rightarrow> 'rep \<Rightarrow> string \<Rightarrow> string \<Rightarrow> (exn + unicode) \<times> world" where
  "save_report_to_s3 E w report bucket key =
     (case get_html E report of
        Inl e \<Rightarrow> (Inl e, w)
      | Inr html_report \<Rightarrow>
          (case put_object E w bucket key html_report ''text/html'' of
             (Inl e, w') \<Rightarrow> (Inl e, w')
           | (Inr ack, w') \<Rightarrow> (Inr html_report, w')))"

definition build_message :: "string \<Rightarrow> string \<Rightarrow> string \<Rightarrow> bytes \<Rightarrow> string \<Rightarrow> mime_message" where
  "build_message to_email subject body attachment attachment_name =
     \<lparr>msg_subject = subject,
      msg_from = ''sagarpatiler@gmail.com'',
      msg_to = to_email,
      msg_parts =
        [MIMEText body ''plain'',
         MIMEBase ''application'' ''octet-stream'' attachment
           [(''Content-Disposition'', ''attachment; filename='' @ attachment_name)]]\<rparr>"

definition send_email_with_attachment ::
  "'rep services \<Rightarrow> world \<Rightarrow> string \<Rightarrow> string \<Rightarrow> string \<Rightarrow> bytes \<Rightarrow> string
     \<Rightarrow> (exn + string) \<times> world" where
  "send_email_with_attachment E w to_email subject body attachment attachment_name =
     (let msg = build_message to_email subject body attachment attachment_name;
          w' = emit (SendRawEmail (msg_from msg) [msg_to msg] msg) w in
      (send_raw_email E msg, w'))"

definition processing_line :: "s3_record \<Rightarrow> string" where
  "processing_line r =
     ''Processing file: '' @ object_key r @ '' from bucket: '' @ bucket_name r"

definition skipping_line :: "s3_record \<Rightarrow> string" where
  "skipping_line r =
     ''File '' @ object_key r @ '' is not in the expected bucket ('' @ CUR_DATA_BUCKET
       @ ''), skipping.''"

definition no_files_response :: response where
  "no_files_response =
     \<lparr>statusCode = 200,
      message = ''No files processed from the dq6-cur-data-s3 bucket.'',
      report_key = None,
      email_response = None\<rparr>"

definition success_response :: "string \<Rightarrow> string \<Rightarrow> response" where
  "success_response key receipt =
     \<lparr>statusCode = 200,
      message =
        ''Data drift detected, report generated, saved to S3, and emailed successfully'',
      report_key = Some key,
      email_response = Some receipt\<rparr>"

text \<open>
  \<open>lambda_handler(event, context)\<close>; the argument list is \<open>event['Records']\<close>. The
  \<open>return\<close> inside the loop ends the handler at the first record of the expected bucket.
\<close>

fun lambda_handler ::
  "'rep services \<Rightarrow> world \<Rightarrow> s3_record list \<Rightarrow> 'ctx \<Rightarrow> (exn + response) \<times> world" where
  "lambda_handler E w [] context = (Inr no_files_response, w)"
| "lambda_handler E w (r # rs) context =
     (if bucket_name r = CUR_DATA_BUCKET then
        (let w1 = emit (Print (processing_line r)) w;
             ref_data_key = ''ref.csv'' in
         case load_data_from_s3 E w1 REF_DATA_BUCKET ref_data_key of
           (Inl e, w2) \<Rightarrow> (Inl e, w2)
         | (Inr reference_data, w2) \<Rightarrow>
         (case load_data_from_s3 E w2 (bucket_name r) (object_key r) of
           (Inl e, w3) \<Rightarrow> (Inl e, w3)
         | (Inr current_data, w3) \<Rightarrow>
         (case generate_drift_report E reference_data current_data of
           Inl e \<Rightarrow> (Inl e, w3)
         | Inr report \<Rightarrow>
         (case uuid4_hex w3 of (u, w4) \<Rightarrow>
         (let key = ''data_drift_report_'' @ u @ ''.html'' in
          case save_report_to_s3 E w4 report REPORTS_BUCKET key of
           (Inl e, w5) \<Rightarrow> (Inl e, w5)
         | (Inr html_report, w5) \<Rightarrow>
         (case encode_utf8 html_report of
           Inl e \<Rightarrow> (Inl e, w5)
         | Inr attachment \<Rightarrow>
         (case send_email_with_attachment E w5 ''sagarpatiler@gmail.com''
                 ''Data Quality Report has been generated''
                 ''Please find the attached Data Quality Report.''
                 attachment ''data_quality_report.html'' of
           (Inl e, w6) \<Rightarrow> (Inl e, w6)
         | (Inr receipt, w6) \<Rightarrow> (Inr (success_response key receipt), w6))))))))
      else lambda_handler E (emit (Print (skipping_line r)) w) rs context)"

subsection \<open>Reading the trace\<close>

fun is_get :: "effect \<Rightarrow> bool" where
  "is_get (GetObject b k) = True"
| "is_get _ = False"

fun is_put :: "effect \<Rightarrow> bool" where
  "is_put (PutObject b k body ct) = True"
| "is_put _ = False"

fun is_send :: "effect \<Rightarrow> bool" where
  "is_send (SendRawEmail s d m) = True"
| "is_send _ = False"

text \<open>The world after the handler has skipped the records \<open>recs\<close>, and the worlds
  along one run of the pipeline for the record \<open>r\<close>: after both fetches, after the UUID
  is drawn, after the \<open>put_object\<close> call, after the object is stored, after the mail is
  handed to SES.\<close>

definition skipped :: "s3_record list \<Rightarrow> world \<Rightarrow> world" where
  "skipped recs w = w\<lparr>trace := trace w @ map (\<lambda>r. Print (skipping_line r)) recs\<rparr>"

definition fetched :: "s3_record \<Rightarrow> world \<Rightarrow> world" where
  "fetched r w =
     emit (GetObject CUR_DATA_BUCKET (object_key r))
       (emit (GetObject REF_DATA_BUCKET ''ref.csv'')
         (emit (Print (processing_line r)) w))"

definition fresh_key :: "world \<Rightarrow> string" where
  "fresh_key w = ''data_drift_report_'' @ uuid_hexes w (uuid_drawn w) @ ''.html''"

definition drawn :: "s3_record \<Rightarrow> world \<Rightarrow> world" where
  "drawn r w = (fetched r w)\<lparr>uuid_drawn := Suc (uuid_drawn w)\<rparr>"

definition put_attempted :: "unicode \<Rightarrow> s3_record \<Rightarrow> world \<Rightarrow> world" where
  "put_attempted html r w =
     emit (PutObject REPORTS_BUCKET (fresh_key w) html ''text/html'') (drawn r w)"

definition stored :: "unicode \<Rightarrow> s3_record \<Rightarrow> world \<Rightarrow> world" where
  "stored html r w =
     (put_attempted html r w)
       \<lparr>objects := (objects w)((REPORTS_BUCKET, fresh_key w) \<mapsto> html)\<rparr>"

definition notification :: "bytes \<Rightarrow> mime_message" where
  "notification attachment =
     build_message ''sagarpatiler@gmail.com'' ''Data Quality Report has been generated''
       ''Please find the attached Data Quality Report.'' attachment
       ''data_quality_report.html''"

definition notified :: "bytes \<Rightarrow> world \<Rightarrow> world" where
  "notified attachment w =
     emit (SendRawEmail ''sagarpatiler@gmail.com'' [''sagarpatiler@gmail.com'']
             (notification attachment)) w"

subsection \<open>The comparability relation of the data model\<close>


subsection \<open>A concrete deployment\<close>

text \<open>Services and a world on which the handler can be run: a reference file and two
  uploads that parse, an empty upload that does not, an analyzer whose run returns a
  report for every pair of frames and whose rendering raises \<open>KeyError\<close> on the first
  reference column that the current frame lacks, a store that accepts every object, and a
  mail service that delivers (\<open>demo_services\<close>) or rejects (\<open>bouncing_services\<close>).\<close>

definition age_frame :: dataframe where
  "age_frame = [\<lparr>col_name = ''age'', col_dtype = Numeric,
                  col_cells = [Some ''20'', Some ''21'']\<rparr>]"

definition name_frame :: dataframe where
  "name_frame = [\<lparr>col_name = ''name'', col_dtype = Categorical,
                   col_cells = [Some ''ann'']\<rparr>]"

fun demo_read_csv :: "unicode \<Rightarrow> dataframe option" where
  "demo_read_csv [] = None"
| "demo_read_csv (c # cs) = Some (if c = 97 then age_frame else name_frame)"

definition demo_html :: unicode where
  "demo_html = [60, 112, 62, 233, 60, 47, 112, 62]"

definition tuned_html :: unicode where
  "tuned_html = [60, 98, 62, 233, 60, 47, 98, 62]"

datatype demo_report = DemoReport "metric list" dataframe dataframe

fun demo_get_html :: "demo_report \<Rightarrow> exn + unicode" where
  "demo_get_html (DemoReport metrics reference_data current_data) =
     (case filter (\<lambda>n. n \<notin> set (map col_name current_data))
             (map col_name reference_data) of
        [] \<Rightarrow> Inr (if metrics = [DataDriftPreset []] then demo_html else tuned_html)
      | n # ns \<Rightarrow> Inl (KeyError n))"

definition demo_services :: "demo_report services" where
  "demo_services =
     \<lparr>read_csv = demo_read_csv,
      evidently_run =
        (\<lambda>metrics reference_data current_data.
           Inr (DemoReport metrics reference_data current_data)),
      get_html = demo_get_html,
      put_object_error = (\<lambda>bucket key body. None),
      send_raw_email = (\<lambda>msg. Inr ''0100-message-id'')\<rparr>"

definition bouncing_services :: "demo_report services" where
  "bouncing_services =
     demo_services\<lparr>send_raw_email := (\<lambda>msg. Inl (DeliveryError ''MessageRejected''))\<rparr>"

definition demo_world :: world where
  "demo_world =
     \<lparr>objects = [(''dq6-ref-data-s3'', ''ref.csv'') \<mapsto> [97, 103, 101, 10, 50, 48],
                  (''dq6-cur-data-s3'', ''a.csv'') \<mapsto> [97, 103, 101, 10, 56, 48],
                  (''dq6-cur-data-s3'', ''b.csv'') \<mapsto> [110, 97, 109, 101, 10, 97],
                  (''dq6-cur-data-s3'', ''empty.csv'') \<mapsto> []],
      trace = [],
      uuid_hexes = (\<lambda>n. if n = 0 then ''5d41402abc4b2a76b9719d911017c592''
                         else ''7d793037a0760186574b0282f2f435e7''),
      uuid_drawn = 0\<rparr>"

definition upload :: "string \<Rightarrow> s3_record" where
  "upload key = \<lparr>bucket_name = ''dq6-cur-data-s3'', object_key = key\<rparr>"

definition foreign_upload :: s3_record where
  "foreign_upload = \<lparr>bucket_name = ''dq6-archive-s3'', object_key = ''old.csv''\<rparr>"

definition demo_config :: "(string \<times> string) list" where
  "demo_config =
     [(''recipient'', ''ops@example.com''),
      (''reports_bucket'', ''team-reports''),
      (''num_stattest_threshold'', ''0.1'')]"

section \<open>Properties\<close>

subsection \<open>Auxiliary facts\<close>

declare lambda_handler.simps [simp del]

lemmas demo_defs = demo_services_def bouncing_services_def demo_world_def upload_def
  foreign_upload_def CUR_DATA_BUCKET_def REF_DATA_BUCKET_def REPORTS_BUCKET_def
  age_frame_def name_frame_def demo_html_def tuned_html_def

lemmas run_defs = load_data_from_s3_def generate_drift_report_def save_report_to_s3_def
  put_object_def
  send_email_with_attachment_def build_message_def uuid4_hex_def emit_def Let_def
  processing_line_def skipping_line_def success_response_def no_files_response_def
  encode_cp_def lambda_handler.simps

lemma skipped_Nil: "skipped [] w = w"
  by (simp add: skipped_def)

lemma skipped_Cons: "skipped (r # rs) w = skipped rs (emit (Print (skipping_line r)) w)"
  by (simp add: skipped_def emit_def)

lemma handler_skip:
  "\<forall>r\<in>set pre. bucket_name r \<noteq> CUR_DATA_BUCKET \<Longrightarrow>
   lambda_handler E w (pre @ rest) context = lambda_handler E (skipped pre w) rest context"
proof (induction pre arbitrary: w)
  case Nil
  show ?case by (simp add: skipped_Nil)
next
  case (Cons r pre)
  then show ?case by (simp add: skipped_Cons lambda_handler.simps)
qed

lemma load_snd: "snd (load_data_from_s3 E w b k) = emit (GetObject b k) w"
  by (simp add: load_data_from_s3_def Let_def split: option.splits)

lemma load_fst_objects:
  "objects w = objects w' \<Longrightarrow>
   fst (load_data_from_s3 E w b k) = fst (load_data_from_s3 E w' b k)"
  by (simp add: load_data_from_s3_def Let_def split: option.splits)

lemma emit_fields:
  "trace (emit x w) = trace w @ [x]"
  "objects (emit x w) = objects w"
  "uuid_drawn (emit x w) = uuid_drawn w"
  "uuid_hexes (emit x w) = uuid_hexes w"
  by (simp_all add: emit_def)

lemma skipped_fields:
  "trace (skipped recs w) = trace w @ map (\<lambda>r. Print (skipping_line r)) recs"
  "objects (skipped recs w) = objects w"
  "uuid_drawn (skipped recs w) = uuid_drawn w"
  "uuid_hexes (skipped recs w) = uuid_hexes w"
  by (simp_all add: skipped_def)

lemma load_emit:
  "load_data_from_s3 E (emit x w) b k
     = (fst (load_data_from_s3 E w b k), emit (GetObject b k) (emit x w))"
  by (simp add: load_data_from_s3_def emit_def Let_def split: option.splits)

lemma load_skipped:
  "fst (load_data_from_s3 E (skipped recs w) b k) = fst (load_data_from_s3 E w b k)"
  by (simp add: load_data_from_s3_def skipped_def Let_def split: option.splits)

lemma handler_ref_fails:
  assumes "bucket_name r = CUR_DATA_BUCKET"
      and "fst (load_data_from_s3 E w REF_DATA_BUCKET ''ref.csv'') = Inl e"
  shows "lambda_handler E w (r # rs) context
           = (Inl e, emit (GetObject REF_DATA_BUCKET ''ref.csv'')
                       (emit (Print (processing_line r)) w))"
  using assms by (simp add: lambda_handler.simps Let_def load_emit)

lemma handler_cur_fails:
  assumes "bucket_name r = CUR_DATA_BUCKET"
      and "fst (load_data_from_s3 E w REF_DATA_BUCKET ''ref.csv'') = Inr d"
      and "fst (load_data_from_s3 E w CUR_DATA_BUCKET (object_key r)) = Inl e"
  shows "lambda_handler E w (r # rs) context
           = (Inl e, emit (GetObject CUR_DATA_BUCKET (object_key r))
                       (emit (GetObject REF_DATA_BUCKET ''ref.csv'')
                         (emit (Print (processing_line r)) w)))"
  using assms by (simp add: lambda_handler.simps Let_def load_emit)

lemma handler_loaded:
  assumes "bucket_name r = CUR_DATA_BUCKET"
      and "fst (load_data_from_s3 E w REF_DATA_BUCKET ''ref.csv'') = Inr rd"
      and "fst (load_data_from_s3 E w CUR_DATA_BUCKET (object_key r)) = Inr cd"
  shows "lambda_handler E w (r # rs) context =
          (case generate_drift_report E rd cd of
             Inl e \<Rightarrow> (Inl e, fetched r w)
           | Inr report \<Rightarrow>
              (case get_html E report of
                 Inl e \<Rightarrow> (Inl e, drawn r w)
               | Inr html \<Rightarrow>
                  (case encode_utf8 html of
                     Inl e \<Rightarrow> (Inl e, put_attempted html r w)
                   | Inr attachment \<Rightarrow>
                      (case put_object_error E REPORTS_BUCKET (fresh_key w) html of
                         Some e \<Rightarrow> (Inl e, put_attempted html r w)
                       | None \<Rightarrow>
                          (case send_raw_email E (notification attachment) of
                             Inl e \<Rightarrow> Inl e
                           | Inr receipt \<Rightarrow> Inr (success_response (fresh_key w) receipt),
                           notified attachment (stored html r w))))))"
  using assms
  by (simp add: lambda_handler.simps Let_def load_emit uuid4_hex_def
        save_report_to_s3_def put_object_def send_email_with_attachment_def fetched_def
        fresh_key_def drawn_def put_attempted_def stored_def notification_def notified_def
        build_message_def emit_fields
        split: sum.splits option.splits)

lemma fetched_fields:
  "trace (fetched r w) =
     trace w @ [Print (processing_line r), GetObject REF_DATA_BUCKET ''ref.csv'',
                GetObject CUR_DATA_BUCKET (object_key r)]"
  "objects (fetched r w) = objects w"
  "uuid_drawn (fetched r w) = uuid_drawn w"
  by (simp_all add: fetched_def emit_fields)

lemma drawn_fields:
  "trace (drawn r w) = trace (fetched r w)"
  "objects (drawn r w) = objects w"
  "uuid_drawn (drawn r w) = Suc (uuid_drawn w)"
  by (simp_all add: drawn_def fetched_fields)

lemma put_attempted_fields:
  "trace (put_attempted html r w) =
     trace (fetched r w) @ [PutObject REPORTS_BUCKET (fresh_key w) html ''text/html'']"
  "objects (put_attempted html r w) = objects w"
  by (simp_all add: put_attempted_def emit_fields drawn_fields)

lemma stored_fields:
  "trace (stored html r w) =
     trace (fetched r w) @ [PutObject REPORTS_BUCKET (fresh_key w) html ''text/html'']"
  "objects (stored html r w) = (objects w)((REPORTS_BUCKET, fresh_key w) \<mapsto> html)"
  by (simp_all add: stored_def put_attempted_fields)

lemma notified_fields:
  "trace (notified attachment w) =
     trace w @ [SendRawEmail ''sagarpatiler@gmail.com'' [''sagarpatiler@gmail.com'']
                  (notification attachment)]"
  "objects (notified attachment w) = objects w"
  by (simp_all add: notified_def emit_fields)

lemma skipped_filters:
  "filter is_get (map (\<lambda>r. Print (skipping_line r)) recs) = []"
  "filter is_put (map (\<lambda>r. Print (skipping_line r)) recs) = []"
  "filter is_send (map (\<lambda>r. Print (skipping_line r)) recs) = []"
  by (simp_all add: filter_map o_def)

lemma handler_success:
  assumes match: "bucket_name r = CUR_DATA_BUCKET"
      and run: "lambda_handler E w (r # rs) context = (Inr resp, w')"
  obtains rd cd report html attachment receipt where
    "fst (load_data_from_s3 E w REF_DATA_BUCKET ''ref.csv'') = Inr rd"
    "fst (load_data_from_s3 E w CUR_DATA_BUCKET (object_key r)) = Inr cd"
    "generate_drift_report E rd cd = Inr report"
    "get_html E report = Inr html"
    "encode_utf8 html = Inr attachment"
    "send_raw_email E (notification attachment) = Inr receipt"
    "resp = success_response (fresh_key w) receipt"
    "w' = notified attachment (stored html r w)"
proof (cases "fst (load_data_from_s3 E w REF_DATA_BUCKET ''ref.csv'')")
  case (Inl e)
  with match have "lambda_handler E w (r # rs) context
      = (Inl e, emit (GetObject REF_DATA_BUCKET ''ref.csv'')
                  (emit (Print (processing_line r)) w))"
    by (rule handler_ref_fails)
  with run show ?thesis by simp
next
  case ref: (Inr rd)
  show ?thesis
  proof (cases "fst (load_data_from_s3 E w CUR_DATA_BUCKET (object_key r))")
    case (Inl e)
    with match ref have "lambda_handler E w (r # rs) context
        = (Inl e, emit (GetObject CUR_DATA_BUCKET (object_key r))
                    (emit (GetObject REF_DATA_BUCKET ''ref.csv'')
                      (emit (Print (processing_line r)) w)))"
      by (rule handler_cur_fails)
    with run show ?thesis by simp
  next
    case cur: (Inr cd)
    from run show ?thesis
      unfolding handler_loaded [OF match ref cur]
      by (auto split: sum.splits option.splits intro: that [OF ref cur])
  qed
qed

lemma handler_context:
  "lambda_handler E w recs (context :: 'a) = lambda_handler E w recs (context' :: 'b)"
  by (induction recs arbitrary: w) (simp_all add: lambda_handler.simps)

subsection \<open>Events of another bucket\<close>

text \<open>
  Claim C5. An event whose bucket is not \<open>CUR_DATA_BUCKET\<close> is ignored: the handler
  prints one line for it and goes on with the rest of the batch; a batch of such events
  alone returns the no-op response, and no object is fetched, no report is stored and no
  mail is sent.
\<close>

theorem foreign_events_ignored:
  assumes "\<forall>r\<in>set recs. bucket_name r \<noteq> CUR_DATA_BUCKET"
  shows "lambda_handler E w recs context = (Inr no_files_response, skipped recs w)
       \<and> lambda_handler E w (recs @ rest) context
           = lambda_handler E (skipped recs w) rest context
       \<and> objects (skipped recs w) = objects w
       \<and> filter is_get (trace (skipped recs w)) = filter is_get (trace w)
       \<and> filter is_put (trace (skipped recs w)) = filter is_put (trace w)
       \<and> filter is_send (trace (skipped recs w)) = filter is_send (trace w)"
proof -
  have "lambda_handler E w (recs @ []) context = lambda_handler E (skipped recs w) [] context"
    using assms by (rule handler_skip)
  then have a: "lambda_handler E w recs context = (Inr no_files_response, skipped recs w)"
    by (simp add: lambda_handler.simps)
  have b: "lambda_handler E w (recs @ rest) context
             = lambda_handler E (skipped recs w) rest context"
    using assms by (rule handler_skip)
  have c: "objects (skipped recs w) = objects w"
    by (simp add: skipped_def)
  have d: "filter is_get (trace (skipped recs w)) = filter is_get (trace w)"
    by (simp add: skipped_def filter_map o_def)
  have e: "filter is_put (trace (skipped recs w)) = filter is_put (trace w)"
    by (simp add: skipped_def filter_map o_def)
  have f: "filter is_send (trace (skipped recs w)) = filter is_send (trace w)"
    by (simp add: skipped_def filter_map o_def)
  from a b c d e f show ?thesis by blast
qed

theorem foreign_events_ignored_witness:
  "bucket_name foreign_upload \<noteq> CUR_DATA_BUCKET
   \<and> lambda_handler demo_services demo_world [foreign_upload] ()
       = (Inr no_files_response, skipped [foreign_upload] demo_world)
   \<and> lambda_handler demo_services demo_world ([foreign_upload] @ [upload ''a.csv'']) ()
       = lambda_handler demo_services (skipped [foreign_upload] demo_world)
           [upload ''a.csv''] ()
   \<and> filter is_get (trace (skipped [foreign_upload] demo_world)) = []
   \<and> filter is_put (trace (skipped [foreign_upload] demo_world)) = []
   \<and> filter is_send (trace (skipped [foreign_upload] demo_world)) = []"
proof -
  have h: "\<forall>r\<in>set [foreign_upload]. bucket_name r \<noteq> CUR_DATA_BUCKET"
    by (simp add: foreign_upload_def CUR_DATA_BUCKET_def)
  have t: "trace demo_world = []"
    by (simp add: demo_world_def)
  from foreign_events_ignored [OF h, of demo_services demo_world "()" "[upload ''a.csv'']"] h t
  show ?thesis by simp
qed

subsection \<open>A batch with several uploads\<close>

text \<open>
  Claim C1. The loop returns inside its first iteration on a record of
  \<open>CUR_DATA_BUCKET\<close>. On a batch of two uploads, \<open>a.csv\<close> and \<open>b.csv\<close>, the handler
  fetches the reference and \<open>a.csv\<close> only, stores one report, sends one mail and returns
  the key of that one report: \<open>b.csv\<close> is never read.
\<close>

theorem first_match_only:
  "fst (lambda_handler demo_services demo_world [upload ''a.csv'', upload ''b.csv''] ())
     = Inr (success_response ''data_drift_report_5d41402abc4b2a76b9719d911017c592.html''
              ''0100-message-id'')
   \<and> filter is_get (trace (snd (lambda_handler demo_services demo_world
                                 [upload ''a.csv'', upload ''b.csv''] ())))
       = [GetObject ''dq6-ref-data-s3'' ''ref.csv'', GetObject ''dq6-cur-data-s3'' ''a.csv'']
   \<and> length (filter is_put (trace (snd (lambda_handler demo_services demo_world
                                 [upload ''a.csv'', upload ''b.csv''] ())))) = 1
   \<and> length (filter is_send (trace (snd (lambda_handler demo_services demo_world
                                 [upload ''a.csv'', upload ''b.csv''] ())))) = 1"
  by (simp add: demo_defs run_defs)

subsection \<open>Datasets that are not comparable\<close>




subsection \<open>A mail that SES rejects\<close>

text \<open>
  Claim C3, as amended. When both datasets load, the analysis returns a report, the report
  renders, the store accepts the HTML and SES then fails with \<open>e\<close>, the handler raises
  \<open>e\<close>: it returns no response,
  so no report key reaches the caller. The report stays stored in \<open>REPORTS_BUCKET\<close> under the
  key of the run, and the mail was attempted once.
\<close>

theorem delivery_failure_raises:
  assumes skip: "\<forall>x\<in>set pre. bucket_name x \<noteq> CUR_DATA_BUCKET"
      and match: "bucket_name r = CUR_DATA_BUCKET"
      and ref: "fst (load_data_from_s3 E w REF_DATA_BUCKET ''ref.csv'') = Inr rd"
      and cur: "fst (load_data_from_s3 E w (bucket_name r) (object_key r)) = Inr cd"
      and gen: "generate_drift_report E rd cd = Inr report"
      and render: "get_html E report = Inr html"
      and put: "put_object_error E REPORTS_BUCKET (fresh_key w) html = None"
      and enc: "encode_utf8 html = Inr attachment"
      and send: "send_raw_email E (notification attachment) = Inl e"
      and run: "lambda_handler E w (pre @ r # rest) context = (res, w')"
  shows "res = Inl e
       \<and> objects w' (REPORTS_BUCKET, fresh_key w) = Some html
       \<and> filter is_put (trace w')
           = filter is_put (trace w)
             @ [PutObject REPORTS_BUCKET (fresh_key w) html ''text/html'']
       \<and> filter is_send (trace w')
           = filter is_send (trace w)
             @ [SendRawEmail ''sagarpatiler@gmail.com'' [''sagarpatiler@gmail.com'']
                  (notification attachment)]"
proof -
  let ?w = "skipped pre w"
  have h: "lambda_handler E ?w (r # rest) context = (res, w')"
    using run by (simp add: handler_skip [OF skip])
  have r1: "fst (load_data_from_s3 E ?w REF_DATA_BUCKET ''ref.csv'') = Inr rd"
    using ref by (simp add: load_skipped)
  have r2: "fst (load_data_from_s3 E ?w CUR_DATA_BUCKET (object_key r)) = Inr cd"
    using cur match by (simp add: load_skipped)
  have key: "fresh_key ?w = fresh_key w"
    by (simp add: fresh_key_def skipped_fields)
  from h have "res = Inl e"
    and w': "w' = notified attachment (stored html r ?w)"
    unfolding handler_loaded [OF match r1 r2] using gen render put enc send key
    by simp_all
  then show ?thesis
    using key
    by (simp add: notified_fields stored_fields fetched_fields skipped_fields skipped_filters)
qed

theorem delivery_failure_raises_witness:
  "bucket_name (upload ''a.csv'') = CUR_DATA_BUCKET
   \<and> fst (load_data_from_s3 bouncing_services demo_world REF_DATA_BUCKET ''ref.csv'')
       = Inr age_frame
   \<and> fst (load_data_from_s3 bouncing_services demo_world (bucket_name (upload ''a.csv''))
             (object_key (upload ''a.csv''))) = Inr age_frame
   \<and> generate_drift_report bouncing_services age_frame age_frame
       = Inr (DemoReport [DataDriftPreset []] age_frame age_frame)
   \<and> get_html bouncing_services (DemoReport [DataDriftPreset []] age_frame age_frame)
       = Inr demo_html
   \<and> put_object_error bouncing_services REPORTS_BUCKET (fresh_key demo_world) demo_html
       = None
   \<and> encode_utf8 demo_html = Inr [60, 112, 62, 195, 169, 60, 47, 112, 62]
   \<and> send_raw_email bouncing_services (notification [60, 112, 62, 195, 169, 60, 47, 112, 62])
       = Inl (DeliveryError ''MessageRejected'')
   \<and> fst (lambda_handler bouncing_services demo_world [upload ''a.csv''] ())
       = Inl (DeliveryError ''MessageRejected'')
   \<and> objects (snd (lambda_handler bouncing_services demo_world [upload ''a.csv''] ()))
        (REPORTS_BUCKET, fresh_key demo_world) = Some demo_html"
proof -
  let ?run = "lambda_handler bouncing_services demo_world [upload ''a.csv''] ()"
  let ?att = "[60, 112, 62, 195, 169, 60, 47, 112, 62] :: bytes"
  have h1: "\<forall>x\<in>set ([]::s3_record list). bucket_name x \<noteq> CUR_DATA_BUCKET"
    by simp
  have h2: "bucket_name (upload ''a.csv'') = CUR_DATA_BUCKET"
    by (simp add: upload_def CUR_DATA_BUCKET_def)
  have h3: "fst (load_data_from_s3 bouncing_services demo_world REF_DATA_BUCKET ''ref.csv'')
              = Inr age_frame"
    by (simp add: demo_defs run_defs)
  have h4: "fst (load_data_from_s3 bouncing_services demo_world
                   (bucket_name (upload ''a.csv'')) (object_key (upload ''a.csv'')))
              = Inr age_frame"
    by (simp add: demo_defs run_defs)
  have h5: "generate_drift_report bouncing_services age_frame age_frame
              = Inr (DemoReport [DataDriftPreset []] age_frame age_frame)"
    by (simp add: demo_defs run_defs)
  have h5': "get_html bouncing_services (DemoReport [DataDriftPreset []] age_frame age_frame)
               = Inr demo_html"
    by (simp add: demo_services_def bouncing_services_def age_frame_def)
  have h6: "put_object_error bouncing_services REPORTS_BUCKET (fresh_key demo_world) demo_html
              = None"
    by (simp add: demo_defs)
  have h7: "encode_utf8 demo_html = Inr ?att"
    by (simp add: demo_defs run_defs)
  have h8: "send_raw_email bouncing_services (notification ?att)
              = Inl (DeliveryError ''MessageRejected'')"
    by (simp add: demo_defs)
  have h9: "lambda_handler bouncing_services demo_world ([] @ upload ''a.csv'' # []) ()
              = (fst ?run, snd ?run)"
    by simp
  from delivery_failure_raises [OF h1 h2 h3 h4 h5 h5' h6 h7 h8 h9] h2 h3 h4 h5 h5' h6 h7 h8
  show ?thesis by simp
qed

text \<open>
  The claim as stated asks for a degraded success that carries the report key. With a mail
  service that rejects the message the handler ends in the delivery error, although the
  report is in the store.
\<close>

theorem delivery_failure_counterexample:
  "fst (lambda_handler bouncing_services demo_world [upload ''a.csv''] ())
     = Inl (DeliveryError ''MessageRejected'')
   \<and> objects (snd (lambda_handler bouncing_services demo_world [upload ''a.csv''] ()))
       (''dq6-reports-s3'', ''data_drift_report_5d41402abc4b2a76b9719d911017c592.html'')
     = Some demo_html"
  by (simp add: demo_defs run_defs)

subsection \<open>A dataset that does not load\<close>

text \<open>
  Claim C4. When the reference dataset, or after it the uploaded dataset, fails to load
  (the object is missing or \<open>read_csv\<close> raises), the handler ends in that exception:
  the contents of S3 are unchanged, no \<open>put_object\<close> and no \<open>send_raw_email\<close> call
  was made, and no UUID was drawn.
\<close>

theorem loading_failure_aborts:
  assumes skip: "\<forall>x\<in>set pre. bucket_name x \<noteq> CUR_DATA_BUCKET"
      and match: "bucket_name r = CUR_DATA_BUCKET"
      and fail: "fst (load_data_from_s3 E w REF_DATA_BUCKET ''ref.csv'') = Inl e
               \<or> (fst (load_data_from_s3 E w REF_DATA_BUCKET ''ref.csv'') = Inr d
                  \<and> fst (load_data_from_s3 E w (bucket_name r) (object_key r)) = Inl e)"
      and run: "lambda_handler E w (pre @ r # rest) context = (res, w')"
  shows "res = Inl e
       \<and> objects w' = objects w
       \<and> filter is_put (trace w') = filter is_put (trace w)
       \<and> filter is_send (trace w') = filter is_send (trace w)
       \<and> uuid_drawn w' = uuid_drawn w"
proof -
  let ?w = "skipped pre w"
  have h: "lambda_handler E ?w (r # rest) context = (res, w')"
    using run by (simp add: handler_skip [OF skip])
  from fail show ?thesis
  proof
    assume "fst (load_data_from_s3 E w REF_DATA_BUCKET ''ref.csv'') = Inl e"
    then have "fst (load_data_from_s3 E ?w REF_DATA_BUCKET ''ref.csv'') = Inl e"
      by (simp add: load_skipped)
    with match have "lambda_handler E ?w (r # rest) context
        = (Inl e, emit (GetObject REF_DATA_BUCKET ''ref.csv'')
                    (emit (Print (processing_line r)) ?w))"
      by (rule handler_ref_fails)
    with h have "res = Inl e"
      and "w' = emit (GetObject REF_DATA_BUCKET ''ref.csv'')
                  (emit (Print (processing_line r)) ?w)"
      by simp_all
    then show ?thesis
      by (simp add: emit_fields skipped_fields skipped_filters)
  next
    assume a: "fst (load_data_from_s3 E w REF_DATA_BUCKET ''ref.csv'') = Inr d
             \<and> fst (load_data_from_s3 E w (bucket_name r) (object_key r)) = Inl e"
    then have r1: "fst (load_data_from_s3 E ?w REF_DATA_BUCKET ''ref.csv'') = Inr d"
      by (simp add: load_skipped)
    from a match have r2: "fst (load_data_from_s3 E ?w CUR_DATA_BUCKET (object_key r)) = Inl e"
      by (simp add: load_skipped)
    from match r1 r2 have "lambda_handler E ?w (r # rest) context
        = (Inl e, emit (GetObject CUR_DATA_BUCKET (object_key r))
                    (emit (GetObject REF_DATA_BUCKET ''ref.csv'')
                      (emit (Print (processing_line r)) ?w)))"
      by (rule handler_cur_fails)
    with h have "res = Inl e"
      and "w' = emit (GetObject CUR_DATA_BUCKET (object_key r))
                    (emit (GetObject REF_DATA_BUCKET ''ref.csv'')
                      (emit (Print (processing_line r)) ?w))"
      by simp_all
    then show ?thesis
      by (simp add: emit_fields skipped_fields skipped_filters)
  qed
qed

theorem loading_failure_aborts_witness:
  "bucket_name foreign_upload \<noteq> CUR_DATA_BUCKET
   \<and> bucket_name (upload ''empty.csv'') = CUR_DATA_BUCKET
   \<and> fst (load_data_from_s3 demo_services demo_world REF_DATA_BUCKET ''ref.csv'') = Inr age_frame
   \<and> fst (load_data_from_s3 demo_services demo_world (bucket_name (upload ''empty.csv''))
             (object_key (upload ''empty.csv''))) = Inl ParserError
   \<and> fst (lambda_handler demo_services demo_world [foreign_upload, upload ''empty.csv''] ())
       = Inl ParserError
   \<and> objects (snd (lambda_handler demo_services demo_world
                      [foreign_upload, upload ''empty.csv''] ())) = objects demo_world
   \<and> filter is_put (trace (snd (lambda_handler demo_services demo_world
                      [foreign_upload, upload ''empty.csv''] ()))) = []
   \<and> filter is_send (trace (snd (lambda_handler demo_services demo_world
                      [foreign_upload, upload ''empty.csv''] ()))) = []"
proof -
  let ?run = "lambda_handler demo_services demo_world [foreign_upload, upload ''empty.csv''] ()"
  have h1: "\<forall>x\<in>set [foreign_upload]. bucket_name x \<noteq> CUR_DATA_BUCKET"
    by (simp add: foreign_upload_def CUR_DATA_BUCKET_def)
  have h2: "bucket_name (upload ''empty.csv'') = CUR_DATA_BUCKET"
    by (simp add: upload_def CUR_DATA_BUCKET_def)
  have h3: "fst (load_data_from_s3 demo_services demo_world REF_DATA_BUCKET ''ref.csv'')
              = Inr age_frame"
    by (simp add: demo_defs run_defs)
  have h4: "fst (load_data_from_s3 demo_services demo_world
                   (bucket_name (upload ''empty.csv'')) (object_key (upload ''empty.csv'')))
              = Inl ParserError"
    by (simp add: demo_defs run_defs)
  have h5: "[foreign_upload] @ upload ''empty.csv'' # [] = [foreign_upload, upload ''empty.csv'']"
    by simp
  have t: "trace demo_world = []"
    by (simp add: demo_world_def)
  have "?run = (fst ?run, snd ?run)" by simp
  from loading_failure_aborts [OF h1 h2 disjI2 [OF conjI [OF h3 h4]], of "[]" "()" "fst ?run" "snd ?run"]
       h1 h2 h3 h4 t
  show ?thesis by simp
qed

subsection \<open>Configuration\<close>

text \<open>
  Claim C6, as amended. Nothing is read from outside the source: on every successful run
  the expected bucket is \<open>dq6-cur-data-s3\<close>, the reference is \<open>ref.csv\<close> of
  \<open>dq6-ref-data-s3\<close>, the report goes to \<open>dq6-reports-s3\<close> under
  \<open>data_drift_report_\<close>, the UUID in hexadecimal and \<open>.html\<close>, and the mail is sent from
  and to \<open>sagarpatiler@gmail.com\<close> with a fixed subject. The stored HTML is the rendering
  of the report that the analyzer returns for the two loaded frames when it is run with
  the single metric \<open>DataDriftPreset()\<close>, written with no argument: no drift threshold and
  no drift share is passed, so each keeps the library's default. The \<open>context\<close> argument,
  the only input besides the event, changes neither the response nor the effects.
\<close>

theorem configuration_is_fixed:
  assumes skip: "\<forall>x\<in>set pre. bucket_name x \<noteq> CUR_DATA_BUCKET"
      and match: "bucket_name r = CUR_DATA_BUCKET"
      and run: "lambda_handler E w (pre @ r # rest) context = (Inr resp, w')"
  shows "lambda_handler E w (pre @ r # rest) context' = (Inr resp, w')
       \<and> bucket_name r = ''dq6-cur-data-s3''
       \<and> (\<exists>rd cd report html msg.
             fst (load_data_from_s3 E w ''dq6-ref-data-s3'' ''ref.csv'') = Inr rd
           \<and> fst (load_data_from_s3 E w ''dq6-cur-data-s3'' (object_key r)) = Inr cd
           \<and> evidently_run E [DataDriftPreset []] rd cd = Inr report
           \<and> get_html E report = Inr html
           \<and> trace w'
               = trace w @ map (\<lambda>x. Print (skipping_line x)) pre
                 @ [Print (processing_line r),
                    GetObject ''dq6-ref-data-s3'' ''ref.csv'',
                    GetObject ''dq6-cur-data-s3'' (object_key r),
                    PutObject ''dq6-reports-s3''
                      (''data_drift_report_'' @ uuid_hexes w (uuid_drawn w) @ ''.html'')
                      html ''text/html'',
                    SendRawEmail ''sagarpatiler@gmail.com'' [''sagarpatiler@gmail.com''] msg]
           \<and> msg_from msg = ''sagarpatiler@gmail.com''
           \<and> msg_to msg = ''sagarpatiler@gmail.com''
           \<and> msg_subject msg = ''Data Quality Report has been generated'')"
proof -
  let ?w = "skipped pre w"
  have h: "lambda_handler E ?w (r # rest) context = (Inr resp, w')"
    using run by (simp add: handler_skip [OF skip])
  from match h obtain rd cd report html attachment receipt where
        ref: "fst (load_data_from_s3 E ?w REF_DATA_BUCKET ''ref.csv'') = Inr rd"
    and cur: "fst (load_data_from_s3 E ?w CUR_DATA_BUCKET (object_key r)) = Inr cd"
    and gen: "generate_drift_report E rd cd = Inr report"
    and render: "get_html E report = Inr html"
    and w': "w' = notified attachment (stored html r ?w)"
    by (rule handler_success)
  have a: "lambda_handler E w (pre @ r # rest) context' = (Inr resp, w')"
    using run handler_context [of E w "pre @ r # rest" "context'" "context"] by simp
  have b: "bucket_name r = ''dq6-cur-data-s3''"
    using match by (simp add: CUR_DATA_BUCKET_def)
  have l1: "fst (load_data_from_s3 E w ''dq6-ref-data-s3'' ''ref.csv'') = Inr rd"
    using ref by (simp add: load_skipped REF_DATA_BUCKET_def)
  have l2: "fst (load_data_from_s3 E w ''dq6-cur-data-s3'' (object_key r)) = Inr cd"
    using cur by (simp add: load_skipped CUR_DATA_BUCKET_def)
  have g: "evidently_run E [DataDriftPreset []] rd cd = Inr report"
    using gen by (simp add: generate_drift_report_def)
  have c: "trace w'
               = trace w @ map (\<lambda>x. Print (skipping_line x)) pre
                 @ [Print (processing_line r),
                    GetObject ''dq6-ref-data-s3'' ''ref.csv'',
                    GetObject ''dq6-cur-data-s3'' (object_key r),
                    PutObject ''dq6-reports-s3''
                      (''data_drift_report_'' @ uuid_hexes w (uuid_drawn w) @ ''.html'')
                      html ''text/html'',
                    SendRawEmail ''sagarpatiler@gmail.com'' [''sagarpatiler@gmail.com'']
                      (notification attachment)]"
    using w'
    by (simp add: notified_fields stored_fields fetched_fields skipped_fields fresh_key_def
          CUR_DATA_BUCKET_def REF_DATA_BUCKET_def REPORTS_BUCKET_def)
  have d: "msg_from (notification attachment) = ''sagarpatiler@gmail.com''"
    "msg_to (notification attachment) = ''sagarpatiler@gmail.com''"
    "msg_subject (notification attachment) = ''Data Quality Report has been generated''"
    by (simp_all add: notification_def build_message_def)
  from a b l1 l2 g render c d show ?thesis by blast
qed

theorem configuration_is_fixed_witness:
  "bucket_name (upload ''a.csv'') = CUR_DATA_BUCKET
   \<and> fst (lambda_handler demo_services demo_world [upload ''a.csv''] ())
       = Inr (success_response ''data_drift_report_5d41402abc4b2a76b9719d911017c592.html''
                ''0100-message-id'')
   \<and> fst (lambda_handler demo_services demo_world [upload ''a.csv''] demo_config)
       = Inr (success_response ''data_drift_report_5d41402abc4b2a76b9719d911017c592.html''
                ''0100-message-id'')
   \<and> snd (lambda_handler demo_services demo_world [upload ''a.csv''] demo_config)
       = snd (lambda_handler demo_services demo_world [upload ''a.csv''] ())
   \<and> (\<exists>rd cd report html.
         evidently_run demo_services [DataDriftPreset []] rd cd = Inr report
       \<and> get_html demo_services report = Inr html
       \<and> filter is_put (trace (snd (lambda_handler demo_services demo_world
                                      [upload ''a.csv''] ())))
           = [PutObject ''dq6-reports-s3''
                ''data_drift_report_5d41402abc4b2a76b9719d911017c592.html'' html
                ''text/html''])"
proof -
  let ?run = "lambda_handler demo_services demo_world [upload ''a.csv''] ()"
  let ?resp = "success_response ''data_drift_report_5d41402abc4b2a76b9719d911017c592.html''
                 ''0100-message-id''"
  have h1: "\<forall>x\<in>set ([]::s3_record list). bucket_name x \<noteq> CUR_DATA_BUCKET"
    by simp
  have h2: "bucket_name (upload ''a.csv'') = CUR_DATA_BUCKET"
    by (simp add: upload_def CUR_DATA_BUCKET_def)
  have h3: "fst ?run = Inr ?resp"
    by (simp add: demo_defs run_defs)
  have h4: "lambda_handler demo_services demo_world ([] @ upload ''a.csv'' # []) ()
              = (Inr ?resp, snd ?run)"
    using h3 by (simp add: prod_eq_iff)
  have t: "trace demo_world = []" "uuid_drawn demo_world = 0"
    "uuid_hexes demo_world 0 = ''5d41402abc4b2a76b9719d911017c592''"
    by (simp_all add: demo_world_def)
  from configuration_is_fixed [OF h1 h2 h4, of demo_config]
  obtain rd cd report html msg where
        c1: "lambda_handler demo_services demo_world ([] @ upload ''a.csv'' # []) demo_config
               = (Inr ?resp, snd ?run)"
    and c2: "evidently_run demo_services [DataDriftPreset []] rd cd = Inr report"
    and c3: "get_html demo_services report = Inr html"
    and c4: "trace (snd ?run)
               = trace demo_world @ map (\<lambda>x. Print (skipping_line x)) []
                 @ [Print (processing_line (upload ''a.csv'')),
                    GetObject ''dq6-ref-data-s3'' ''ref.csv'',
                    GetObject ''dq6-cur-data-s3'' (object_key (upload ''a.csv'')),
                    PutObject ''dq6-reports-s3''
                      (''data_drift_report_''
                         @ uuid_hexes demo_world (uuid_drawn demo_world) @ ''.html'')
                      html ''text/html'',
                    SendRawEmail ''sagarpatiler@gmail.com'' [''sagarpatiler@gmail.com''] msg]"
    by blast
  have p: "filter is_put (trace (snd ?run))
             = [PutObject ''dq6-reports-s3''
                  ''data_drift_report_5d41402abc4b2a76b9719d911017c592.html'' html
                  ''text/html'']"
    using c4 t by simp
  from c1 have q: "fst (lambda_handler demo_services demo_world [upload ''a.csv''] demo_config)
                     = Inr ?resp"
    and q': "snd (lambda_handler demo_services demo_world [upload ''a.csv''] demo_config)
               = snd ?run"
    by simp_all
  from h2 h3 q q' c2 c3 p show ?thesis by blast
qed

text \<open>
  The claim as stated asks that a supplied recipient, bucket or threshold be used. A
  context that names another recipient, another reports bucket and a numeric drift
  threshold leaves the mail and the stored object where the source's constants put them,
  and the stored HTML is the one the analyzer renders for the preset without arguments,
  not the one it renders when the threshold is passed.
\<close>

theorem configuration_counterexample:
  "map_of demo_config ''recipient'' = Some ''ops@example.com''
   \<and> map_of demo_config ''reports_bucket'' = Some ''team-reports''
   \<and> map_of demo_config ''num_stattest_threshold'' = Some ''0.1''
   \<and> filter is_send (trace (snd (lambda_handler demo_services demo_world
                                  [upload ''a.csv''] demo_config)))
       = [SendRawEmail ''sagarpatiler@gmail.com'' [''sagarpatiler@gmail.com'']
            (notification [60, 112, 62, 195, 169, 60, 47, 112, 62])]
   \<and> filter is_put (trace (snd (lambda_handler demo_services demo_world
                                  [upload ''a.csv''] demo_config)))
       = [PutObject ''dq6-reports-s3''
            ''data_drift_report_5d41402abc4b2a76b9719d911017c592.html'' demo_html
            ''text/html'']
   \<and> get_html demo_services
         (DemoReport [DataDriftPreset []] age_frame age_frame) = Inr demo_html
   \<and> get_html demo_services
         (DemoReport [DataDriftPreset [(''num_stattest_threshold'', ''0.1'')]]
            age_frame age_frame) = Inr tuned_html
   \<and> tuned_html \<noteq> demo_html"
  by (simp add: demo_defs run_defs demo_config_def notification_def)

subsection \<open>The location of the reference dataset\<close>



subsection \<open>The attachment and the stored report\<close>

text \<open>
  Claim C10. On every successful run the response carries the key
  \<open>data_drift_report_<uuid>.html\<close>; exactly one object was put, under that key in
  \<open>REPORTS_BUCKET\<close>, with an HTML payload \<open>html\<close>; exactly one mail was sent, and its
  attachment is the UTF-8 encoding of that same \<open>html\<close>, under the fixed file name
  \<open>data_quality_report.html\<close>.
\<close>

theorem attachment_is_stored_html:
  assumes skip: "\<forall>x\<in>set pre. bucket_name x \<noteq> CUR_DATA_BUCKET"
      and match: "bucket_name r = CUR_DATA_BUCKET"
      and run: "lambda_handler E w (pre @ r # rest) context = (Inr resp, w')"
  shows "\<exists>html attachment msg.
           report_key resp
             = Some (''data_drift_report_'' @ uuid_hexes w (uuid_drawn w) @ ''.html'')
         \<and> filter is_put (trace w')
             = filter is_put (trace w)
               @ [PutObject REPORTS_BUCKET
                    (''data_drift_report_'' @ uuid_hexes w (uuid_drawn w) @ ''.html'')
                    html ''text/html'']
         \<and> objects w'
              (REPORTS_BUCKET, ''data_drift_report_'' @ uuid_hexes w (uuid_drawn w) @ ''.html'')
             = Some html
         \<and> encode_utf8 html = Inr attachment
         \<and> filter is_send (trace w')
             = filter is_send (trace w)
               @ [SendRawEmail ''sagarpatiler@gmail.com'' [''sagarpatiler@gmail.com''] msg]
         \<and> msg_parts msg
             = [MIMEText ''Please find the attached Data Quality Report.'' ''plain'',
                MIMEBase ''application'' ''octet-stream'' attachment
                  [(''Content-Disposition'',
                    ''attachment; filename=data_quality_report.html'')]]"
proof -
  let ?w = "skipped pre w"
  have h: "lambda_handler E ?w (r # rest) context = (Inr resp, w')"
    using run by (simp add: handler_skip [OF skip])
  from match h obtain rd cd report html attachment receipt where
        enc: "encode_utf8 html = Inr attachment"
    and resp: "resp = success_response (fresh_key ?w) receipt"
    and w': "w' = notified attachment (stored html r ?w)"
    by (rule handler_success)
  have key: "fresh_key ?w = ''data_drift_report_'' @ uuid_hexes w (uuid_drawn w) @ ''.html''"
    by (simp add: fresh_key_def skipped_fields)
  have a: "report_key resp
             = Some (''data_drift_report_'' @ uuid_hexes w (uuid_drawn w) @ ''.html'')"
    using resp key by (simp add: success_response_def)
  have b: "filter is_put (trace w')
             = filter is_put (trace w)
               @ [PutObject REPORTS_BUCKET
                    (''data_drift_report_'' @ uuid_hexes w (uuid_drawn w) @ ''.html'')
                    html ''text/html'']"
    using w' key
    by (simp add: notified_fields stored_fields fetched_fields skipped_fields skipped_filters)
  have c: "objects w'
              (REPORTS_BUCKET, ''data_drift_report_'' @ uuid_hexes w (uuid_drawn w) @ ''.html'')
             = Some html"
    using w' key by (simp add: notified_fields stored_fields)
  have d: "filter is_send (trace w')
             = filter is_send (trace w)
               @ [SendRawEmail ''sagarpatiler@gmail.com'' [''sagarpatiler@gmail.com'']
                    (notification attachment)]"
    using w'
    by (simp add: notified_fields stored_fields fetched_fields skipped_fields skipped_filters)
  have e: "msg_parts (notification attachment)
             = [MIMEText ''Please find the attached Data Quality Report.'' ''plain'',
                MIMEBase ''application'' ''octet-stream'' attachment
                  [(''Content-Disposition'',
                    ''attachment; filename=data_quality_report.html'')]]"
    by (simp add: notification_def build_message_def)
  from a b c enc d e show ?thesis by blast
qed

theorem attachment_is_stored_html_witness:
  "bucket_name (upload ''a.csv'') = CUR_DATA_BUCKET
   \<and> fst (lambda_handler demo_services demo_world [upload ''a.csv''] ())
       = Inr (success_response ''data_drift_report_5d41402abc4b2a76b9719d911017c592.html''
                ''0100-message-id'')
   \<and> (\<exists>html attachment msg.
         filter is_put (trace (snd (lambda_handler demo_services demo_world
                                      [upload ''a.csv''] ())))
           = [PutObject REPORTS_BUCKET
                ''data_drift_report_5d41402abc4b2a76b9719d911017c592.html'' html ''text/html'']
       \<and> encode_utf8 html = Inr attachment
       \<and> filter is_send (trace (snd (lambda_handler demo_services demo_world
                                      [upload ''a.csv''] ())))
           = [SendRawEmail ''sagarpatiler@gmail.com'' [''sagarpatiler@gmail.com''] msg]
       \<and> msg_parts msg
           = [MIMEText ''Please find the attached Data Quality Report.'' ''plain'',
              MIMEBase ''application'' ''octet-stream'' attachment
                [(''Content-Disposition'',
                  ''attachment; filename=data_quality_report.html'')]])"
proof -
  let ?run = "lambda_handler demo_services demo_world [upload ''a.csv''] ()"
  let ?resp = "success_response ''data_drift_report_5d41402abc4b2a76b9719d911017c592.html''
                 ''0100-message-id''"
  have h1: "\<forall>x\<in>set ([]::s3_record list). bucket_name x \<noteq> CUR_DATA_BUCKET"
    by simp
  have h2: "bucket_name (upload ''a.csv'') = CUR_DATA_BUCKET"
    by (simp add: upload_def CUR_DATA_BUCKET_def)
  have h3: "fst ?run = Inr ?resp"
    by (simp add: demo_defs run_defs)
  have h4: "lambda_handler demo_services demo_world ([] @ upload ''a.csv'' # []) ()
              = (Inr ?resp, snd ?run)"
    using h3 by (simp add: prod_eq_iff)
  have t: "trace demo_world = []" "uuid_drawn demo_world = 0"
    "uuid_hexes demo_world 0 = ''5d41402abc4b2a76b9719d911017c592''"
    by (simp_all add: demo_world_def)
  from attachment_is_stored_html [OF h1 h2 h4] h2 h3 t
  show ?thesis by auto
qed

end
